theory Spec2Isabelle
  imports Main "HOL-Library.Sublist"
begin

section \<open>Remote execution handler of linopy (\<open>linopy/remote.py\<close>)\<close>

text \<open>
  A shallow embedding of \<open>RemoteHandler\<close>: the script template \<open>command\<close> and its
  formatter, the shell protocol of \<open>execute\<close>, and the workflow \<open>solve_on_remote\<close>.

  Python's \<open>str\<close> is modelled by \<open>string\<close>; a character stands for a code point below
  256. Exceptions are values of the type \<open>error\<close>, and a function that may raise returns
  \<open>error + 'a\<close>. Calls to the collaborators (the SFTP client, the shell's input stream,
  \<open>print\<close>, the model's serialisation) are recorded, in order, as a list of \<open>event\<close>s.
\<close>

subsection \<open>Exceptions\<close>

datatype error =
    AttributeError string
  | KeyError string
  | IndexError string
  | ValueError string
  | OSError string
  | External string

subsection \<open>The string methods used by the handler\<close>

abbreviation newline :: char where
  "newline \<equiv> CHR 0x0A"

text \<open>\<open>str.isspace\<close> on a single code point below 256.\<close>

definition py_isspace :: "char \<Rightarrow> bool" where
  "py_isspace c = (c \<in> set [CHR 0x09, CHR 0x0A, CHR 0x0B, CHR 0x0C, CHR 0x0D,
                            CHR 0x1C, CHR 0x1D, CHR 0x1E, CHR 0x1F, CHR 0x20,
                            CHR 0x85, CHR 0xA0])"

text \<open>\<open>s.strip(chars)\<close>: the characters satisfying \<open>P\<close> are removed at both ends.\<close>

definition strip_where :: "(char \<Rightarrow> bool) \<Rightarrow> string \<Rightarrow> string" where
  "strip_where P s = rev (dropWhile P (rev (dropWhile P s)))"

text \<open>\<open>s.strip("\n")\<close>\<close>

definition strip_newlines :: "string \<Rightarrow> string" where
  "strip_newlines s = strip_where (\<lambda>c. c = newline) s"

text \<open>\<open>s.strip()\<close>\<close>

definition strip_space :: "string \<Rightarrow> string" where
  "strip_space s = strip_where py_isspace s"

text \<open>\<open>s.endswith(t)\<close>, \<open>s.startswith(t)\<close> and \<open>t in s\<close>\<close>

definition endswith :: "string \<Rightarrow> string \<Rightarrow> bool" where
  "endswith s t = suffix t s"

definition startswith :: "string \<Rightarrow> string \<Rightarrow> bool" where
  "startswith s t = prefix t s"

definition contains :: "string \<Rightarrow> string \<Rightarrow> bool" where
  "contains s t = sublist t s"

text \<open>
  \<open>s.rsplit(maxsplit=1)\<close>: split once, from the right, at a run of whitespace. Trailing
  whitespace is dropped first; the last word is cut off; what remains loses its trailing
  whitespace and is left out when nothing remains.
\<close>

definition rsplit1 :: "string \<Rightarrow> string list" where
  "rsplit1 s =
     (let r = dropWhile py_isspace (rev s) in
      if r = [] then []
      else
        let word = rev (takeWhile (\<lambda>c. \<not> py_isspace c) r);
            remaining = dropWhile py_isspace (dropWhile (\<lambda>c. \<not> py_isspace c) r)
        in if remaining = [] then [word] else [rev remaining, word])"

text \<open>\<open>xs[1]\<close>\<close>

definition index1 :: "string list \<Rightarrow> error + string" where
  "index1 xs =
     (case xs of
        _ # y # _ \<Rightarrow> Inr y
      | _ \<Rightarrow> Inl (IndexError ''list index out of range''))"

text \<open>
  \<open>int(s)\<close> for a string: surrounding whitespace is ignored, one sign is allowed, and
  the digits may be grouped by single underscores. The interpreter's optional limit on
  the number of digits is not part of the model.
\<close>

definition is_digit :: "char \<Rightarrow> bool" where
  "is_digit c = (c \<in> set ''0123456789'')"

definition digit_value :: "char \<Rightarrow> int" where
  "digit_value c = int (of_char c) - 48"

fun valid_decimal :: "string \<Rightarrow> bool" where
  "valid_decimal [] = False"
| "valid_decimal [c] = is_digit c"
| "valid_decimal (c # d # cs) =
     (is_digit c \<and> (if d = CHR ''_'' then valid_decimal cs else valid_decimal (d # cs)))"

definition decimal_value :: "string \<Rightarrow> int" where
  "decimal_value ds = foldl (\<lambda>a c. 10 * a + digit_value c) 0 (filter (\<lambda>c. c \<noteq> CHR ''_'') ds)"

definition py_int :: "string \<Rightarrow> error + int" where
  "py_int s =
     (let t = strip_space s;
          (negative, body) =
             (case t of
                [] \<Rightarrow> (False, t)
              | c # cs \<Rightarrow>
                  if c = CHR ''-'' then (True, cs)
                  else if c = CHR ''+'' then (False, cs)
                  else (False, t))
      in if valid_decimal body
         then Inr (if negative then - decimal_value body else decimal_value body)
         else Inl (ValueError ''invalid literal for int() with base 10''))"

subsection \<open>The script template and \<open>str.format\<close>\<close>

text \<open>
  \<open>template.format(**kw)\<close> for templates whose replacement fields are plain names:
  \<open>{{\<close> and \<open>}}\<close> stand for a brace, \<open>{name}\<close> is replaced by the keyword argument
  \<open>name\<close>. The second argument is the field name read so far (\<open>None\<close> outside a field).
  A field with a conversion, a format specification, an attribute or an index is
  outside the model and reported as \<open>External\<close>; none occurs in \<open>command\<close>.
\<close>

fun format_from :: "(string \<times> string) list \<Rightarrow> string option \<Rightarrow> string \<Rightarrow> error + string" where
  "format_from kw None [] = Inr []"
| "format_from kw (Some name) [] = Inl (ValueError ''expected } before end of string'')"
| "format_from kw None (c # cs) =
     (if c = CHR ''{'' then
        (case cs of
           d # cs' \<Rightarrow>
             if d = CHR ''{''
             then (case format_from kw None cs' of Inl e \<Rightarrow> Inl e | Inr t \<Rightarrow> Inr (CHR ''{'' # t))
             else format_from kw (Some []) cs
         | [] \<Rightarrow> Inl (ValueError ''Single { encountered in format string''))
      else if c = CHR ''}'' then
        (case cs of
           d # cs' \<Rightarrow>
             if d = CHR ''}''
             then (case format_from kw None cs' of Inl e \<Rightarrow> Inl e | Inr t \<Rightarrow> Inr (CHR ''}'' # t))
             else Inl (ValueError ''Single } encountered in format string'')
         | [] \<Rightarrow> Inl (ValueError ''Single } encountered in format string''))
      else (case format_from kw None cs of Inl e \<Rightarrow> Inl e | Inr t \<Rightarrow> Inr (c # t)))"
| "format_from kw (Some name) (c # cs) =
     (if c = CHR ''}'' then
        (if name = [] \<or> list_all is_digit name
         then Inl (IndexError ''Replacement index out of range for positional args tuple'')
         else
           (case map_of kw name of
              None \<Rightarrow> Inl (KeyError name)
            | Some v \<Rightarrow>
                (case format_from kw None cs of Inl e \<Rightarrow> Inl e | Inr t \<Rightarrow> Inr (v @ t))))
      else if c \<in> set ''{.[!:''
      then Inl (External ''replacement field outside the model'')
      else format_from kw (Some (name @ [c])) cs)"

definition format :: "string \<Rightarrow> (string \<times> string) list \<Rightarrow> error + string" where
  "format template kw = format_from kw None template"

definition command :: string where
  "command =
     ''\<newline>import linopy\<newline>\<newline>m = linopy.read_netcdf(\"{model_unsolved_file}\")\<newline>m.solve({solve_kwargs})\<newline>m.to_netcdf(\"{model_solved_file}\")\<newline>''"

text \<open>
  The script formatter with its three inputs in the order of the specification:
  unsolved path, solved path, options text. It is \<open>command.format\<close>, the default of the
  field \<open>python_script\<close>, called with the keywords that
  \<open>write_python_file_on_remote\<close> passes.
\<close>

definition render :: "string \<Rightarrow> string \<Rightarrow> string \<Rightarrow> error + string" where
  "render u s opts =
     format command
       [(''model_unsolved_file'', u), (''solve_kwargs'', opts), (''model_solved_file'', s)]"

subsection \<open>Recorded calls\<close>

text \<open>
  The calls that leave the handler, in the order in which they are made. A call is
  recorded when it is made, whether or not it then fails.
\<close>

datatype event =
    Sftp_open string
  | Sftp_file_write string string
  | To_netcdf string
  | Sftp_put string string
  | Stdin_write string
  | Stdin_flush
  | Print string
  | Sftp_get string string
  | Read_netcdf string

subsection \<open>\<open>RemoteHandler.execute\<close>\<close>

definition finish :: string where
  "finish = ''End of stdout buffer. Finished with exit status''"

text \<open>\<open>str(line).strip("\n").strip()\<close>, the form in which the loop looks at a line.\<close>

definition stripped :: "string \<Rightarrow> string" where
  "stripped raw = strip_space (strip_newlines raw)"

text \<open>
  The loop \<open>for line in self.stdout\<close>. The arguments are the command text after
  normalisation, the variables \<open>print_stdout\<close> and \<open>exit_status\<close>, and the lines the
  stream still yields. The result is the list of printed lines, the exit status (or the
  exception raised while parsing it) and the lines left in the stream. When the stream
  ends the loop ends, and \<open>exit_status\<close> is what it was. The stream is the finite list
  of the lines it yields until it ends; a read that blocks for ever on an open stream
  has no counterpart here.
\<close>

fun read_stdout ::
  "string \<Rightarrow> bool \<Rightarrow> int \<Rightarrow> string list \<Rightarrow> string list \<times> (error + int) \<times> string list" where
  "read_stdout cmd print_stdout exit_status [] = ([], Inr exit_status, [])"
| "read_stdout cmd print_stdout exit_status (raw # rest) =
     (let line = stripped raw in
      if endswith line cmd then read_stdout cmd True exit_status rest
      else if startswith line finish then
        (case index1 (rsplit1 line) of
           Inl e \<Rightarrow> ([], Inl e, rest)
         | Inr token \<Rightarrow>
             (case py_int token of
                Inl e \<Rightarrow> ([], Inl e, rest)
              | Inr n \<Rightarrow> ([], Inr n, rest)))
      else if \<not> contains line finish \<and> print_stdout then
        (case read_stdout cmd print_stdout exit_status rest of
           (out, r) \<Rightarrow> (line # out, r))
      else read_stdout cmd print_stdout exit_status rest)"

text \<open>
  \<open>execute(cmd)\<close> on a shell whose output stream yields the lines \<open>stdout\<close>. The
  result is the outcome (\<open>Inr ()\<close> for a normal return), the calls made and the lines
  left in the stream. \<open>echo_cmd\<close> is \<open>"echo {} $?".format(finish)\<close>.
\<close>

definition execute :: "string \<Rightarrow> string list \<Rightarrow> (error + unit) \<times> event list \<times> string list" where
  "execute cmd0 stdout =
     (let cmd = strip_newlines cmd0;
          echo_cmd = ''echo '' @ finish @ '' $?'';
          written = [Stdin_write (cmd @ [newline]), Stdin_write (echo_cmd @ [newline]), Stdin_flush];
          (out, status, rest) = read_stdout cmd False 0 stdout;
          calls = written @ map Print out
      in case status of
           Inl e \<Rightarrow> (Inl e, calls, rest)
         | Inr exit_status \<Rightarrow>
             if exit_status \<noteq> 0
             then (Inl (OSError ''Execution on remote raised an error, see above.''), calls, rest)
             else (Inr (), calls, rest))"

text \<open>The three components of what a run returns.\<close>

definition outcome_of :: "'a \<times> event list \<times> string list \<Rightarrow> 'a" where
  "outcome_of r = fst r"

definition calls_of :: "'a \<times> event list \<times> string list \<Rightarrow> event list" where
  "calls_of r = fst (snd r)"

definition stream_after :: "'a \<times> event list \<times> string list \<Rightarrow> string list" where
  "stream_after r = snd (snd r)"

text \<open>The lines that were forwarded to the output sink, in order.\<close>

fun printed :: "event list \<Rightarrow> string list" where
  "printed [] = []"
| "printed (Print line # calls) = line # printed calls"
| "printed (_ # calls) = printed calls"

text \<open>
  The number of lines in the text written to the shell's input stream: the number of
  newline characters in the arguments of \<open>self.stdin.write\<close>.
\<close>

fun lines_written :: "event list \<Rightarrow> nat" where
  "lines_written [] = 0"
| "lines_written (Stdin_write text # calls) =
     length (filter (\<lambda>c. c = newline) text) + lines_written calls"
| "lines_written (_ # calls) = lines_written calls"

subsection \<open>The shell's side of the protocol\<close>

text \<open>
  What the shell prints for \<open>$?\<close>: the exit status in decimal digits. The sentinel
  line that answers \<open>echo_cmd\<close> is the finish token, a space and these digits.
\<close>

definition digit_char :: "nat \<Rightarrow> char" where
  "digit_char d = ''0123456789'' ! d"

fun show_nat :: "nat \<Rightarrow> string" where
  "show_nat n = (if n < 10 then [digit_char n] else show_nat (n div 10) @ [digit_char (n mod 10)])"

definition sentinel_line :: "nat \<Rightarrow> string" where
  "sentinel_line exit_code = finish @ '' '' @ show_nat exit_code"

subsection \<open>The handler and its collaborators\<close>

datatype pyval = PyNone | PyStr string

text \<open>
  The fields of the dataclass that the workflow reads. \<open>pre_execution\<close> and
  \<open>post_execution\<close> are read by \<open>solve_on_remote\<close> but are not fields of the dataclass:
  they are \<open>None\<close> when the instance has no such attribute, and \<open>Some v\<close> when the
  attribute has been set to \<open>v\<close> on the instance.
\<close>

record handler =
  python_script :: "(string \<times> string) list \<Rightarrow> error + string"
  python_executable :: string
  python_file :: string
  model_unsolved_file :: string
  model_solved_file :: string
  pre_execution :: "pyval option"
  post_execution :: "pyval option"

text \<open>The handler with the defaults of the dataclass.\<close>

definition default_handler :: handler where
  "default_handler =
     \<lparr>python_script = format command,
      python_executable = ''python'',
      python_file = ''/tmp/linopy-execution.py'',
      model_unsolved_file = ''/tmp/linopy-unsolved-model.nc'',
      model_solved_file = ''/tmp/linopy-solved-model.nc'',
      pre_execution = None,
      post_execution = None\<rparr>"

text \<open>
  What the collaborators do when called: for each call that may fail, the exception it
  raises, if any; the model that \<open>read_netcdf\<close> returns; the names of the two temporary
  files.
\<close>

record 'm remote =
  open_fails :: "error option"
  write_fails :: "error option"
  to_netcdf_fails :: "error option"
  put_fails :: "error option"
  get_fails :: "error option"
  read_netcdf :: "error + 'm"
  unsolved_tmp :: string
  solved_tmp :: string

text \<open>Reading an attribute of the instance.\<close>

definition getattr :: "string \<Rightarrow> pyval option \<Rightarrow> error + pyval" where
  "getattr name a =
     (case a of
        None \<Rightarrow> Inl (AttributeError name)
      | Some v \<Rightarrow> Inr v)"

subsection \<open>\<open>RemoteHandler.solve_on_remote\<close>\<close>

text \<open>The argument \<open>solve_kwargs\<close> is the text \<open>str(solve_kwargs)\<close>.\<close>

definition write_python_file_on_remote ::
  "handler \<Rightarrow> 'm remote \<Rightarrow> string \<Rightarrow> (error + unit) \<times> event list" where
  "write_python_file_on_remote h env solve_kwargs =
     (let script_kwargs =
            [(''model_unsolved_file'', model_unsolved_file h),
             (''solve_kwargs'', ''**'' @ solve_kwargs),
             (''model_solved_file'', model_solved_file h)]
      in case open_fails env of
           Some e \<Rightarrow> (Inl e, [Sftp_open (python_file h)])
         | None \<Rightarrow>
             (case python_script h script_kwargs of
                Inl e \<Rightarrow> (Inl e, [Sftp_open (python_file h)])
              | Inr text \<Rightarrow>
                  (case write_fails env of
                     Some e \<Rightarrow>
                       (Inl e, [Sftp_open (python_file h), Sftp_file_write (python_file h) text])
                   | None \<Rightarrow>
                       (Inr (), [Sftp_open (python_file h), Sftp_file_write (python_file h) text]))))"

definition write_model_on_remote :: "handler \<Rightarrow> 'm remote \<Rightarrow> (error + unit) \<times> event list" where
  "write_model_on_remote h env =
     (case to_netcdf_fails env of
        Some e \<Rightarrow> (Inl e, [To_netcdf (unsolved_tmp env)])
      | None \<Rightarrow>
          (case put_fails env of
             Some e \<Rightarrow>
               (Inl e, [To_netcdf (unsolved_tmp env),
                        Sftp_put (unsolved_tmp env) (model_unsolved_file h)])
           | None \<Rightarrow>
               (Inr (), [To_netcdf (unsolved_tmp env),
                         Sftp_put (unsolved_tmp env) (model_unsolved_file h)])))"

text \<open>
  The command text that \<open>solve_on_remote\<close> builds between the upload and the call of
  \<open>execute\<close>; \<open>command_line\<close> is the local variable \<open>command\<close> of the source. A
  string is true when it is not empty, \<open>None\<close> is false.
\<close>

definition build_command :: "handler \<Rightarrow> error + string" where
  "build_command h =
     (let command_line = python_executable h @ '' '' @ python_file h in
      case getattr ''pre_execution'' (pre_execution h) of
        Inl e \<Rightarrow> Inl e
      | Inr pre \<Rightarrow>
          (let command_line =
                 (case pre of
                    PyStr p \<Rightarrow> if p \<noteq> [] then p @ [newline] @ command_line else command_line
                  | PyNone \<Rightarrow> command_line)
           in case getattr ''post_execution'' (post_execution h) of
                Inl e \<Rightarrow> Inl e
              | Inr post \<Rightarrow>
                  Inr (case post of
                         PyStr p \<Rightarrow> if p \<noteq> [] then command_line @ [newline] @ p else command_line
                       | PyNone \<Rightarrow> command_line)))"

definition solve_on_remote ::
  "handler \<Rightarrow> 'm remote \<Rightarrow> string \<Rightarrow> string list \<Rightarrow> (error + 'm) \<times> event list \<times> string list" where
  "solve_on_remote h env solve_kwargs stdout =
     (case write_python_file_on_remote h env solve_kwargs of
        (Inl e, staged) \<Rightarrow> (Inl e, staged, stdout)
      | (Inr _, staged) \<Rightarrow>
     (case write_model_on_remote h env of
        (Inl e, uploaded) \<Rightarrow> (Inl e, staged @ uploaded, stdout)
      | (Inr _, uploaded) \<Rightarrow>
     (case build_command h of
        Inl e \<Rightarrow> (Inl e, staged @ uploaded, stdout)
      | Inr command_line \<Rightarrow>
     (case execute command_line stdout of
        (Inl e, executed, rest) \<Rightarrow> (Inl e, staged @ uploaded @ executed, rest)
      | (Inr _, executed, rest) \<Rightarrow>
     (case get_fails env of
        Some e \<Rightarrow>
          (Inl e, staged @ uploaded @ executed
                  @ [Sftp_get (model_solved_file h) (solved_tmp env)], rest)
      | None \<Rightarrow>
     (case read_netcdf env of
        Inl e \<Rightarrow>
          (Inl e, staged @ uploaded @ executed
                  @ [Sftp_get (model_solved_file h) (solved_tmp env),
                     Read_netcdf (solved_tmp env)], rest)
      | Inr solved \<Rightarrow>
          (Inr solved, staged @ uploaded @ executed
                       @ [Sftp_get (model_solved_file h) (solved_tmp env),
                          Read_netcdf (solved_tmp env)], rest)))))))"

text \<open>Calls made by \<open>execute\<close>, and calls that fetch and load the solved model.\<close>

fun is_shell_call :: "event \<Rightarrow> bool" where
  "is_shell_call (Stdin_write _) = True"
| "is_shell_call Stdin_flush = True"
| "is_shell_call (Print _) = True"
| "is_shell_call _ = False"

fun is_fetch_call :: "event \<Rightarrow> bool" where
  "is_fetch_call (Sftp_get _ _) = True"
| "is_fetch_call (Read_netcdf _) = True"
| "is_fetch_call _ = False"

fun is_put_call :: "event \<Rightarrow> bool" where
  "is_put_call (Sftp_put _ _) = True"
| "is_put_call _ = False"

fun is_get_call :: "event \<Rightarrow> bool" where
  "is_get_call (Sftp_get _ _) = True"
| "is_get_call _ = False"

subsection \<open>Example configurations\<close>

text \<open>
  A handler on which the two hook attributes have been set after construction, and a
  remote on which every call succeeds and \<open>read_netcdf\<close> returns the given model.
\<close>

definition hooked_handler :: "pyval \<Rightarrow> pyval \<Rightarrow> handler" where
  "hooked_handler pre post =
     default_handler\<lparr>pre_execution := Some pre, post_execution := Some post\<rparr>"

definition reliable_remote :: "'m \<Rightarrow> 'm remote" where
  "reliable_remote solved =
     \<lparr>open_fails = None,
      write_fails = None,
      to_netcdf_fails = None,
      put_fails = None,
      get_fails = None,
      read_netcdf = Inr solved,
      unsolved_tmp = ''/tmp/linopy-a.nc'',
      solved_tmp = ''/tmp/linopy-b.nc''\<rparr>"

section \<open>Properties\<close>

subsection \<open>The script formatter\<close>

lemma format_command:
  "format command
     [(''model_unsolved_file'', u), (''solve_kwargs'', opts), (''model_solved_file'', s)] =
     Inr (''\<newline>import linopy\<newline>\<newline>m = linopy.read_netcdf(\"'' @ u
          @ ''\")\<newline>m.solve('' @ opts
          @ '')\<newline>m.to_netcdf(\"'' @ s @ ''\")\<newline>'')"
  by (simp add: format_def command_def is_digit_def)

text \<open>
  Claim C9. The script formatter is a function of its three arguments alone: for all
  inputs its value is the fixed template with the unsolved path inside the
  \<open>read_netcdf\<close> statement, the options text inside the \<open>solve\<close> statement and the
  solved path inside the \<open>to_netcdf\<close> statement, each copied verbatim. Equal arguments
  therefore give equal text, and formatting never fails.
\<close>

theorem render_embeds_arguments:
  "render u s opts =
     Inr (''\<newline>import linopy\<newline>\<newline>m = linopy.read_netcdf(\"'' @ u
          @ ''\")\<newline>m.solve('' @ opts
          @ '')\<newline>m.to_netcdf(\"'' @ s @ ''\")\<newline>'')"
  unfolding render_def by (rule format_command)

theorem render_embeds_arguments_witness:
  "render ''/tmp/a.nc'' ''/tmp/b.nc'' ''{'method':'x'}'' =
     Inr ''\<newline>import linopy\<newline>\<newline>m = linopy.read_netcdf(\"/tmp/a.nc\")\<newline>m.solve({'method':'x'})\<newline>m.to_netcdf(\"/tmp/b.nc\")\<newline>''"
  using render_embeds_arguments [of "''/tmp/a.nc''" "''/tmp/b.nc''" "''{'method':'x'}''"]
  by simp

subsection \<open>Facts about the string methods\<close>

lemma strip_where_unchanged:
  assumes "s \<noteq> []" "\<not> P (hd s)" "\<not> P (last s)"
  shows "strip_where P s = s"
proof -
  from assms have a: "dropWhile P s = s" by (cases s) auto
  from assms have "dropWhile P (rev s) = rev s" by (cases "rev s") (auto simp: hd_rev)
  with a show ?thesis by (simp add: strip_where_def)
qed

lemma takeWhile_eq_replicate:
  "takeWhile (\<lambda>c. c = a) s = replicate (length (takeWhile (\<lambda>c. c = a) s)) a"
  by (induction s) auto

lemma dropWhile_strip_where:
  "dropWhile P s = strip_where P s @ rev (takeWhile P (rev (dropWhile P s)))"
proof -
  define t where "t = rev (dropWhile P s)"
  have "rev t = rev (takeWhile P t @ dropWhile P t)" by simp
  then have "rev t = rev (dropWhile P t) @ rev (takeWhile P t)"
    by (simp only: rev_append)
  then show ?thesis by (simp add: t_def strip_where_def)
qed

lemma strip_where_decompose:
  "s = takeWhile P s @ strip_where P s @ rev (takeWhile P (rev (dropWhile P s)))"
proof -
  have "s = takeWhile P s @ dropWhile P s" by simp
  then show ?thesis using dropWhile_strip_where [of P s] by simp
qed

lemma strip_where_last: "strip_where P s \<noteq> [] \<Longrightarrow> \<not> P (last (strip_where P s))"
  by (simp add: strip_where_def last_rev hd_dropWhile)

lemma strip_where_hd:
  assumes ne: "strip_where P s \<noteq> []"
  shows "\<not> P (hd (strip_where P s))"
proof -
  have "dropWhile P s \<noteq> []"
  proof
    assume a: "dropWhile P s = []"
    have "strip_where P s = rev (dropWhile P (rev (dropWhile P s)))"
      by (simp add: strip_where_def)
    also have "\<dots> = []" unfolding a by simp
    finally show False using ne by simp
  qed
  then have "\<not> P (hd (dropWhile P s))" by (rule hd_dropWhile)
  moreover have "hd (dropWhile P s) = hd (strip_where P s)"
    using ne dropWhile_strip_where [of P s] by (metis hd_append2)
  ultimately show ?thesis by simp
qed

lemma digit_char_cases:
  "d < 10 \<Longrightarrow> digit_char d \<in> set ''0123456789'' \<and> digit_value (digit_char d) = int d"
proof -
  assume "d < 10"
  then have "d = 0 \<or> d = 1 \<or> d = 2 \<or> d = 3 \<or> d = 4 \<or> d = 5 \<or> d = 6 \<or> d = 7 \<or> d = 8 \<or> d = 9"
    by arith
  then show ?thesis
    by (elim disjE) (simp_all add: digit_char_def digit_value_def)
qed

lemma digit_char_is_digit: "d < 10 \<Longrightarrow> is_digit (digit_char d)"
  using digit_char_cases [of d] by (simp add: is_digit_def)

lemma digit_char_value: "d < 10 \<Longrightarrow> digit_value (digit_char d) = int d"
  using digit_char_cases [of d] by simp

declare show_nat.simps [simp del]

lemma show_nat_digits: "list_all is_digit (show_nat n)"
proof (induction n rule: show_nat.induct)
  case (1 n)
  show ?case
  proof (cases "n < 10")
    case True
    then show ?thesis by (simp add: show_nat.simps [of n] digit_char_is_digit)
  next
    case False
    with 1 show ?thesis by (simp add: show_nat.simps [of n] digit_char_is_digit)
  qed
qed

lemma show_nat_not_empty: "show_nat n \<noteq> []"
  by (simp add: show_nat.simps [of n])

lemma is_digit_not_space: "is_digit c \<Longrightarrow> \<not> py_isspace c"
  by (auto simp: is_digit_def py_isspace_def)

lemma is_digit_not_sign:
  "is_digit c \<Longrightarrow> c \<noteq> CHR ''_'' \<and> c \<noteq> CHR ''-'' \<and> c \<noteq> CHR ''+''"
  by (auto simp: is_digit_def)

lemma valid_decimal_digits: "ds \<noteq> [] \<Longrightarrow> list_all is_digit ds \<Longrightarrow> valid_decimal ds"
  by (induction ds rule: valid_decimal.induct) (auto simp: is_digit_not_sign)

lemma filter_digits: "list_all is_digit ds \<Longrightarrow> filter (\<lambda>c. c \<noteq> CHR ''_'') ds = ds"
  by (induction ds) (auto simp: is_digit_not_sign)

lemma decimal_value_show_nat: "decimal_value (show_nat n) = int n"
proof (induction n rule: show_nat.induct)
  case (1 n)
  show ?case
  proof (cases "n < 10")
    case True
    then show ?thesis
      by (simp add: show_nat.simps [of n] decimal_value_def digit_char_is_digit
            is_digit_not_sign digit_char_value)
  next
    case False
    have f: "filter (\<lambda>c. c \<noteq> CHR ''_'') (show_nat (n div 10)) = show_nat (n div 10)"
      by (rule filter_digits) (rule show_nat_digits)
    from False 1 have ih: "decimal_value (show_nat (n div 10)) = int (n div 10)" by simp
    have "decimal_value (show_nat n)
          = 10 * decimal_value (show_nat (n div 10)) + digit_value (digit_char (n mod 10))"
      using False
      by (simp add: show_nat.simps [of n] decimal_value_def f digit_char_is_digit
            is_digit_not_sign)
    also have "\<dots> = 10 * int (n div 10) + int (n mod 10)"
      by (simp add: ih digit_char_value)
    also have "\<dots> = int n" by (simp add: zdiv_int zmod_int)
    finally show ?thesis .
  qed
qed

lemma strip_space_digits:
  assumes "ds \<noteq> []" "list_all is_digit ds"
  shows "strip_space ds = ds"
proof -
  from assms have "is_digit (hd ds)" "is_digit (last ds)"
    by (auto simp: list_all_iff)
  then show ?thesis
    unfolding strip_space_def using assms(1)
    by (intro strip_where_unchanged) (auto simp: is_digit_not_space)
qed

lemma py_int_show_nat: "py_int (show_nat n) = Inr (int n)"
proof -
  obtain c cs where s: "show_nat n = c # cs"
    using show_nat_not_empty [of n] by (cases "show_nat n") auto
  have "is_digit c" using show_nat_digits [of n] s by simp
  then have "c \<noteq> CHR ''-''" "c \<noteq> CHR ''+''" by (simp_all add: is_digit_not_sign)
  moreover have "strip_space (show_nat n) = show_nat n"
    by (rule strip_space_digits) (rule show_nat_not_empty, rule show_nat_digits)
  moreover have "valid_decimal (show_nat n)"
    by (rule valid_decimal_digits) (rule show_nat_not_empty, rule show_nat_digits)
  ultimately show ?thesis
    using s decimal_value_show_nat [of n] by (simp add: py_int_def)
qed


lemma finish_facts:
  "finish \<noteq> []" "\<not> py_isspace (last finish)" "\<not> py_isspace (hd finish)"
  by (simp_all add: finish_def py_isspace_def)

lemma stripped_sentinel_line: "stripped (sentinel_line n) = sentinel_line n"
proof -
  have ne: "sentinel_line n \<noteq> []" by (simp add: sentinel_line_def finish_def)
  have h: "hd (sentinel_line n) = CHR ''E''" by (simp add: sentinel_line_def finish_def)
  have "last (sentinel_line n) = last (show_nat n)"
    by (simp add: sentinel_line_def show_nat_not_empty)
  moreover have "is_digit (last (show_nat n))"
    using show_nat_digits [of n] show_nat_not_empty [of n] by (simp add: list_all_iff)
  ultimately have l: "is_digit (last (sentinel_line n))" by simp
  from l have l1: "\<not> py_isspace (last (sentinel_line n))" by (rule is_digit_not_space)
  have "py_isspace newline" by (simp add: py_isspace_def)
  with l1 have l2: "last (sentinel_line n) \<noteq> newline" by auto
  have a: "strip_newlines (sentinel_line n) = sentinel_line n"
    unfolding strip_newlines_def using ne l2
    by (intro strip_where_unchanged) (simp_all add: h)
  have b: "strip_space (sentinel_line n) = sentinel_line n"
    unfolding strip_space_def using ne l1
    by (intro strip_where_unchanged) (simp_all add: h py_isspace_def)
  show ?thesis by (simp add: stripped_def a b)
qed

lemma startswith_sentinel_line: "startswith (sentinel_line n) finish"
  by (simp add: startswith_def sentinel_line_def)

lemma takeWhile_up_to:
  "\<forall>x \<in> set xs. P x \<Longrightarrow> \<not> P y \<Longrightarrow> takeWhile P (xs @ y # ys) = xs"
  by (induction xs) auto

lemma dropWhile_up_to:
  "\<forall>x \<in> set xs. P x \<Longrightarrow> \<not> P y \<Longrightarrow> dropWhile P (xs @ y # ys) = y # ys"
  by (induction xs) auto

lemma rsplit1_sentinel_line: "rsplit1 (sentinel_line n) = [finish, show_nat n]"
proof -
  let ?ds = "rev (show_nat n)"
  let ?r = "?ds @ CHR '' '' # rev finish"
  have r: "rev (sentinel_line n) = ?r" by (simp add: sentinel_line_def)
  have nsp: "\<forall>c \<in> set ?ds. \<not> py_isspace c"
    using show_nat_digits [of n] by (auto simp: list_all_iff is_digit_not_space)
  have sp: "py_isspace (CHR '' '')" by (simp add: py_isspace_def)
  obtain d ds where d: "?ds = d # ds"
    using show_nat_not_empty [of n] by (cases ?ds) auto
  with nsp have "\<not> py_isspace d" by simp
  with d have dw: "dropWhile py_isspace ?r = ?r" by simp
  have tw: "takeWhile (\<lambda>c. \<not> py_isspace c) ?r = ?ds"
    using nsp sp by (intro takeWhile_up_to) simp_all
  have dw2: "dropWhile (\<lambda>c. \<not> py_isspace c) ?r = CHR '' '' # rev finish"
    using nsp sp by (intro dropWhile_up_to) simp_all
  have dw3: "dropWhile py_isspace (CHR '' '' # rev finish) = rev finish"
    by (simp add: finish_def py_isspace_def)
  have "?r \<noteq> []" by simp
  then show ?thesis
    unfolding rsplit1_def r Let_def dw tw dw2 dw3 by (simp add: finish_facts)
qed

lemma read_stdout_sentinel:
  assumes "stripped raw = sentinel_line n" "\<not> endswith (sentinel_line n) c"
  shows "read_stdout c ps st (raw # after) = ([], Inr (int n), after)"
  using assms
  by (simp add: startswith_sentinel_line rsplit1_sentinel_line index1_def py_int_show_nat)

lemma read_stdout_no_sentinel:
  "\<forall>raw \<in> set lines. \<not> startswith (stripped raw) finish \<Longrightarrow>
   snd (read_stdout c ps st lines) = (Inr st, [])"
  by (induction lines arbitrary: ps) (simp_all add: Let_def split_beta)

lemma read_stdout_banner:
  "\<forall>raw \<in> set banner. \<not> endswith (stripped raw) c \<and> \<not> startswith (stripped raw) finish \<Longrightarrow>
   read_stdout c False st (banner @ rest) = read_stdout c False st rest"
  by (induction banner) (auto simp: Let_def)

lemma read_stdout_banner_printed:
  "\<forall>raw \<in> set banner. \<not> endswith (stripped raw) c \<Longrightarrow>
   fst (read_stdout c False st (banner @ rest)) =
     (if \<exists>raw \<in> set banner. startswith (stripped raw) finish then []
      else fst (read_stdout c False st rest))"
  by (induction banner) (auto simp: Let_def split: sum.splits)

lemma read_stdout_middle:
  "\<forall>raw \<in> set middle. \<not> startswith (stripped raw) finish \<Longrightarrow>
   read_stdout c True st (middle @ rest) =
     (case read_stdout c True st rest of
        (out, r) \<Rightarrow>
          ([line. line \<leftarrow> map stripped middle, \<not> endswith line c \<and> \<not> contains line finish] @ out, r))"
  by (induction middle) (simp_all add: Let_def split_beta)

lemma read_stdout_printed:
  "fst (read_stdout c ps st lines) =
     [line. line \<leftarrow> map stripped
                      ((if ps then id else dropWhile (\<lambda>raw. \<not> endswith (stripped raw) c))
                         (takeWhile (\<lambda>raw. endswith (stripped raw) c
                                           \<or> \<not> startswith (stripped raw) finish) lines)),
            \<not> endswith line c \<and> \<not> contains line finish]"
  by (induction lines arbitrary: ps) (simp_all add: Let_def split_beta split: sum.splits)

lemma strip_newlines_no_leading: "\<not> startswith (strip_newlines cmd) [newline]"
proof (cases "strip_newlines cmd")
  case Nil
  then show ?thesis by (simp add: startswith_def)
next
  case (Cons x xs)
  then have "strip_where (\<lambda>c. c = newline) cmd \<noteq> []" by (simp add: strip_newlines_def)
  then have "\<not> (\<lambda>c. c = newline) (hd (strip_where (\<lambda>c. c = newline) cmd))"
    by (rule strip_where_hd)
  with Cons show ?thesis by (simp add: startswith_def strip_newlines_def)
qed

lemma strip_newlines_no_trailing: "\<not> endswith (strip_newlines cmd) [newline]"
proof (cases "strip_newlines cmd = []")
  case True
  then show ?thesis by (simp add: endswith_def)
next
  case False
  then have "strip_where (\<lambda>c. c = newline) cmd \<noteq> []" by (simp add: strip_newlines_def)
  then have "\<not> (\<lambda>c. c = newline) (last (strip_where (\<lambda>c. c = newline) cmd))"
    by (rule strip_where_last)
  then show ?thesis
    using False by (auto simp: endswith_def strip_newlines_def suffix_def)
qed

subsection \<open>Facts about \<open>execute\<close>\<close>

lemma printed_map_Print: "printed (map Print out) = out"
  by (induction out) auto

lemma lines_written_map_Print: "lines_written (map Print out) = 0"
  by (induction out) auto

lemma execute_unfold:
  "execute cmd stdout =
     (case read_stdout (strip_newlines cmd) False 0 stdout of
        (out, status, rest) \<Rightarrow>
          ((case status of
              Inl e \<Rightarrow> Inl e
            | Inr n \<Rightarrow>
                if n \<noteq> 0 then Inl (OSError ''Execution on remote raised an error, see above.'')
                else Inr ()),
           [Stdin_write (strip_newlines cmd @ [newline]),
            Stdin_write (''echo '' @ finish @ '' $?'' @ [newline]),
            Stdin_flush] @ map Print out,
           rest))"
  by (simp add: execute_def Let_def split: prod.splits sum.splits)

lemma printed_execute:
  "printed (calls_of (execute cmd stdout)) = fst (read_stdout (strip_newlines cmd) False 0 stdout)"
  by (simp add: execute_unfold calls_of_def split_beta printed_map_Print)

subsection \<open>The contract of \<open>execute\<close>\<close>

text \<open>
  Claim C1, as amended. Let the stream consist of banner lines (none ends with the
  command text or starts with the finish token), a line that ends with the normalised
  command text (the echo), further lines of which none starts with the finish token,
  the sentinel line for the exit code, and anything after it. If the normalised command
  text is not a suffix of the sentinel line, then \<open>execute\<close> returns normally exactly
  when the exit code is 0 and raises \<open>OSError\<close> otherwise; it forwards, stripped, in
  arrival order and once each, exactly the lines between echo and sentinel that neither
  end with the command text nor contain the finish token; and it leaves the stream
  right after the sentinel.
\<close>

theorem execute_echo_then_sentinel:
  assumes banner: "\<forall>raw \<in> set banner. \<not> endswith (stripped raw) (strip_newlines cmd)
                                       \<and> \<not> startswith (stripped raw) finish"
    and echo: "endswith (stripped echo) (strip_newlines cmd)"
    and middle: "\<forall>raw \<in> set middle. \<not> startswith (stripped raw) finish"
    and sentinel: "stripped sentinel = sentinel_line exit_code"
    and distinct: "\<not> endswith (sentinel_line exit_code) (strip_newlines cmd)"
  shows "outcome_of (execute cmd (banner @ echo # middle @ sentinel # after)) =
           (if exit_code = 0 then Inr ()
            else Inl (OSError ''Execution on remote raised an error, see above.''))
       \<and> printed (calls_of (execute cmd (banner @ echo # middle @ sentinel # after))) =
           [line. line \<leftarrow> map stripped middle,
                  \<not> endswith line (strip_newlines cmd) \<and> \<not> contains line finish]
       \<and> stream_after (execute cmd (banner @ echo # middle @ sentinel # after)) = after"
proof -
  let ?c = "strip_newlines cmd"
  have "read_stdout ?c False 0 (banner @ echo # middle @ sentinel # after)
        = read_stdout ?c False 0 (echo # middle @ sentinel # after)"
    using banner by (rule read_stdout_banner)
  also have "\<dots> = read_stdout ?c True 0 (middle @ sentinel # after)"
    using echo by simp
  also have "\<dots> = ([line. line \<leftarrow> map stripped middle,
                          \<not> endswith line ?c \<and> \<not> contains line finish],
                     Inr (int exit_code), after)"
    using middle sentinel distinct
    by (simp add: read_stdout_middle read_stdout_sentinel del: read_stdout.simps)
  finally show ?thesis
    by (simp add: execute_unfold outcome_of_def calls_of_def stream_after_def printed_map_Print)
qed

text \<open>
  The theorem at a concrete stream: a login banner, the echo of \<open>ls -l\<close> behind a
  prompt, two lines of output and the sentinel for exit code 2.
\<close>

theorem execute_echo_then_sentinel_witness:
  "outcome_of (execute ''ls -l''
      [''Welcome'', ''$ ls -l'', ''total 0'', ''  a.txt  '',
       ''End of stdout buffer. Finished with exit status 2\<newline>'', ''$ ''])
     = Inl (OSError ''Execution on remote raised an error, see above.'')
   \<and> printed (calls_of (execute ''ls -l''
      [''Welcome'', ''$ ls -l'', ''total 0'', ''  a.txt  '',
       ''End of stdout buffer. Finished with exit status 2\<newline>'', ''$ '']))
     = [''total 0'', ''a.txt'']"
proof -
  have "outcome_of (execute ''ls -l''
          ([''Welcome''] @ ''$ ls -l'' # [''total 0'', ''  a.txt  '']
            @ ''End of stdout buffer. Finished with exit status 2\<newline>'' # [''$ ''])) =
           (if (2::nat) = 0 then Inr ()
            else Inl (OSError ''Execution on remote raised an error, see above.''))
       \<and> printed (calls_of (execute ''ls -l''
          ([''Welcome''] @ ''$ ls -l'' # [''total 0'', ''  a.txt  '']
            @ ''End of stdout buffer. Finished with exit status 2\<newline>'' # [''$ '']))) =
           [line. line \<leftarrow> map stripped [''total 0'', ''  a.txt  ''],
                  \<not> endswith line (strip_newlines ''ls -l'') \<and> \<not> contains line finish]
       \<and> stream_after (execute ''ls -l''
          ([''Welcome''] @ ''$ ls -l'' # [''total 0'', ''  a.txt  '']
            @ ''End of stdout buffer. Finished with exit status 2\<newline>'' # [''$ ''])) = [''$ '']"
    by (rule execute_echo_then_sentinel [where exit_code = 2]) code_simp+
  moreover have "[line. line \<leftarrow> map stripped [''total 0'', ''  a.txt  ''],
                  \<not> endswith line (strip_newlines ''ls -l'') \<and> \<not> contains line finish]
                 = [''total 0'', ''a.txt'']"
    by code_simp
  ultimately show ?thesis by simp
qed

text \<open>
  Claim C1 as stated fails for the empty command text: every line ends with the empty
  text, so the output line and the sentinel line are both skipped as echoes. The call
  returns normally although the exit code is 1, and nothing is forwarded.
\<close>

theorem execute_echo_then_sentinel_counterexample:
  "outcome_of (execute [] [[], ''out'', ''End of stdout buffer. Finished with exit status 1'']) = Inr ()
   \<and> printed (calls_of (execute [] [[], ''out'', ''End of stdout buffer. Finished with exit status 1''])) = []"
  by code_simp

subsection \<open>Normalisation of the command text\<close>

text \<open>
  Claim C3 as stated fails: \<open>strip("\n")\<close> removes newline characters at both ends,
  so a leading newline is not preserved.
\<close>

theorem execute_strips_newlines_counterexample:
  "calls_of (execute ''\<newline>ls\<newline>'' []) =
     [Stdin_write ''ls\<newline>'',
      Stdin_write ''echo End of stdout buffer. Finished with exit status $?\<newline>'',
      Stdin_flush]"
  by code_simp

text \<open>
  Claim C3, as amended. The text written first is the normalised command text followed
  by one newline, and the normalised text is the input without its leading and its
  trailing newline characters: the input is some newlines, the normalised text, and
  some newlines, and the normalised text neither starts nor ends with a newline.
\<close>

theorem execute_strips_newlines:
  "\<exists>leading trailing.
      cmd = replicate leading newline @ strip_newlines cmd @ replicate trailing newline
    \<and> \<not> startswith (strip_newlines cmd) [newline]
    \<and> \<not> endswith (strip_newlines cmd) [newline]
    \<and> hd (calls_of (execute cmd stdout)) = Stdin_write (strip_newlines cmd @ [newline])"
proof -
  let ?P = "\<lambda>c. c = newline"
  let ?a = "takeWhile ?P cmd"
  let ?b = "takeWhile ?P (rev (dropWhile ?P cmd))"
  have a: "?a = replicate (length ?a) newline" by (rule takeWhile_eq_replicate)
  have "?b = replicate (length ?b) newline" by (rule takeWhile_eq_replicate)
  then have "rev ?b = rev (replicate (length ?b) newline)" by simp
  then have b: "rev ?b = replicate (length ?b) newline" by simp
  have "cmd = ?a @ strip_newlines cmd @ rev ?b"
    unfolding strip_newlines_def by (rule strip_where_decompose)
  with a b have d: "cmd = replicate (length ?a) newline @ strip_newlines cmd
                          @ replicate (length ?b) newline"
    by simp
  have h: "\<not> startswith (strip_newlines cmd) [newline]"
    by (rule strip_newlines_no_leading)
  have l: "\<not> endswith (strip_newlines cmd) [newline]"
    by (rule strip_newlines_no_trailing)
  have "hd (calls_of (execute cmd stdout)) = Stdin_write (strip_newlines cmd @ [newline])"
    by (simp add: execute_unfold calls_of_def split_beta)
  with d h l show ?thesis by blast
qed

subsection \<open>The echo rule\<close>

text \<open>
  Claim C4 as stated fails: after the echo of \<open>ls\<close> has been seen, the output line
  \<open>tools\<close> ends with the command text and does not contain the finish token, and it
  is skipped instead of forwarded.
\<close>

theorem echo_skip_every_line_counterexample:
  "printed (calls_of (execute ''ls''
      [''$ ls'', ''tools'', ''a.txt'', ''End of stdout buffer. Finished with exit status 0'']))
   = [''a.txt'']"
  by code_simp

text \<open>
  Claim C4, as amended. The echo rule applies to every line, whether or not an echo has
  been seen before: a line that ends with the normalised command text is never
  forwarded. The forwarded lines are, in order, the stripped lines from the first line
  that ends with the command text up to the first line that starts with the finish
  token without ending with the command text, leaving out those that end with the
  command text or contain the finish token.
\<close>

theorem echo_skip_every_line:
  "printed (calls_of (execute cmd stdout)) =
     [line. line \<leftarrow> map stripped
                      (dropWhile (\<lambda>raw. \<not> endswith (stripped raw) (strip_newlines cmd))
                         (takeWhile (\<lambda>raw. endswith (stripped raw) (strip_newlines cmd)
                                           \<or> \<not> startswith (stripped raw) finish) stdout)),
            \<not> endswith line (strip_newlines cmd) \<and> \<not> contains line finish]"
  by (simp add: printed_execute read_stdout_printed)

text \<open>
  The theorem on a stream with a banner, the echo of \<open>make\<close>, one line of output, a
  line that ends with the command text, the sentinel and a prompt: only the line of
  output is forwarded.
\<close>

theorem echo_skip_every_line_witness:
  "printed (calls_of (execute ''make''
      [''Welcome'', ''$ make'', ''cc -c a.c'', ''cmake'',
       ''End of stdout buffer. Finished with exit status 0'', ''$ '']))
   = [''cc -c a.c'']"
  by (rule trans [OF echo_skip_every_line]) code_simp

subsection \<open>Lines before the echo\<close>

text \<open>
  Claim C5 as stated fails: a line before the echo that starts with the finish token
  is parsed as the sentinel. With such a banner line the call raises, without it the
  same stream gives a normal return.
\<close>

theorem banner_lines_counterexample:
  "outcome_of (execute ''ls''
      ([''End of stdout buffer. Finished with exit status 7'']
        @ [''$ ls'', ''a.txt'', ''End of stdout buffer. Finished with exit status 0'']))
     = Inl (OSError ''Execution on remote raised an error, see above.'')
   \<and> outcome_of (execute ''ls''
        [''$ ls'', ''a.txt'', ''End of stdout buffer. Finished with exit status 0''])
     = Inr ()"
  by code_simp

text \<open>
  Claim C5, as amended. Let no banner line end with the normalised command text, so that
  all of them come before the echo. Then no banner line is forwarded: what is
  forwarded is nothing if a banner line starts with the finish token, and otherwise
  what is forwarded for the rest of the stream. If no banner line starts with the
  finish token, the banner has no effect at all: outcome, calls and the stream left
  over are those of the run on the rest of the stream.
\<close>

theorem banner_lines_discarded:
  assumes "\<forall>raw \<in> set banner. \<not> endswith (stripped raw) (strip_newlines cmd)"
  shows "printed (calls_of (execute cmd (banner @ rest))) =
           (if \<exists>raw \<in> set banner. startswith (stripped raw) finish then []
            else printed (calls_of (execute cmd rest)))
       \<and> ((\<forall>raw \<in> set banner. \<not> startswith (stripped raw) finish) \<longrightarrow>
            execute cmd (banner @ rest) = execute cmd rest)"
proof (intro conjI impI)
  show "printed (calls_of (execute cmd (banner @ rest))) =
           (if \<exists>raw \<in> set banner. startswith (stripped raw) finish then []
            else printed (calls_of (execute cmd rest)))"
    unfolding printed_execute using assms by (rule read_stdout_banner_printed)
next
  assume "\<forall>raw \<in> set banner. \<not> startswith (stripped raw) finish"
  with assms have "read_stdout (strip_newlines cmd) False 0 (banner @ rest)
                   = read_stdout (strip_newlines cmd) False 0 rest"
    by (intro read_stdout_banner) simp
  then show "execute cmd (banner @ rest) = execute cmd rest"
    by (simp add: execute_unfold)
qed

text \<open>The theorem at a stream with a two-line login banner.\<close>

theorem banner_lines_discarded_witness:
  "printed (calls_of (execute ''ls''
      [''Welcome to the cluster'', ''Last login: Sun Feb 13'', ''$ ls'', ''a.txt'',
       ''End of stdout buffer. Finished with exit status 0'']))
     = [''a.txt'']
   \<and> execute ''ls''
      [''Welcome to the cluster'', ''Last login: Sun Feb 13'', ''$ ls'', ''a.txt'',
       ''End of stdout buffer. Finished with exit status 0'']
     = execute ''ls'' [''$ ls'', ''a.txt'', ''End of stdout buffer. Finished with exit status 0'']"
proof -
  let ?banner = "[''Welcome to the cluster'', ''Last login: Sun Feb 13'']"
  let ?rest = "[''$ ls'', ''a.txt'', ''End of stdout buffer. Finished with exit status 0'']"
  have a: "\<forall>raw \<in> set ?banner. \<not> endswith (stripped raw) (strip_newlines ''ls'')"
    by code_simp
  have b: "\<forall>raw \<in> set ?banner. \<not> startswith (stripped raw) finish"
    by code_simp
  have c: "printed (calls_of (execute ''ls'' ?rest)) = [''a.txt'']"
    by code_simp
  from banner_lines_discarded [OF a, of ?rest] b c show ?thesis by simp
qed

subsection \<open>What is written to the shell\<close>

text \<open>
  Claim C6 as stated fails for a command text with a newline inside, such as the one
  \<open>solve_on_remote\<close> builds from a hook: three lines are written, not two.
\<close>

theorem execute_writes_counterexample:
  "lines_written (calls_of (execute ''cd /tmp\<newline>ls'' [])) = 3"
  by code_simp

text \<open>
  Claim C6, as amended. Every call of \<open>execute\<close> makes exactly two writes to the
  shell's input stream, the normalised command text and the \<open>echo\<close> of the finish
  token with \<open>$?\<close>, each followed by a single newline, then one flush; all later calls
  are prints. The normalised command text does not end with a newline. The number of
  lines written is two plus the number of newlines inside the normalised command text.
  The finish token is the text given.
\<close>

theorem execute_writes:
  "(\<exists>out. calls_of (execute cmd stdout) =
       [Stdin_write (strip_newlines cmd @ [newline]),
        Stdin_write (''echo End of stdout buffer. Finished with exit status $?'' @ [newline]),
        Stdin_flush] @ map Print out)
   \<and> \<not> endswith (strip_newlines cmd) [newline]
   \<and> lines_written (calls_of (execute cmd stdout)) =
       length (filter (\<lambda>c. c = newline) (strip_newlines cmd)) + 2
   \<and> finish = ''End of stdout buffer. Finished with exit status''"
proof -
  obtain out status rest where r: "read_stdout (strip_newlines cmd) False 0 stdout = (out, status, rest)"
    by (cases "read_stdout (strip_newlines cmd) False 0 stdout") auto
  have c: "calls_of (execute cmd stdout) =
       [Stdin_write (strip_newlines cmd @ [newline]),
        Stdin_write (''echo End of stdout buffer. Finished with exit status $?'' @ [newline]),
        Stdin_flush] @ map Print out"
    by (simp add: execute_unfold r calls_of_def finish_def)
  have l: "\<not> endswith (strip_newlines cmd) [newline]"
    by (rule strip_newlines_no_trailing)
  have "lines_written (calls_of (execute cmd stdout)) =
       length (filter (\<lambda>c. c = newline) (strip_newlines cmd)) + 2"
    unfolding c by (simp add: lines_written_map_Print)
  with c l show ?thesis by (auto simp: finish_def)
qed

subsection \<open>A stream that ends without a sentinel\<close>

text \<open>
  Claim C10. If the stream ends and no line of it, stripped, starts with the finish
  token, then \<open>execute\<close> returns normally: the loop ends with the exit status at its
  initial value 0 and with the stream used up, and no exception is raised.
\<close>

theorem execute_without_sentinel:
  assumes "\<forall>raw \<in> set stdout. \<not> startswith (stripped raw) finish"
  shows "outcome_of (execute cmd stdout) = Inr ()
       \<and> snd (read_stdout (strip_newlines cmd) False 0 stdout) = (Inr 0, [])"
proof -
  from assms have "snd (read_stdout (strip_newlines cmd) False 0 stdout) = (Inr 0, [])"
    by (rule read_stdout_no_sentinel)
  then show ?thesis
    by (simp add: execute_unfold outcome_of_def split_beta)
qed

text \<open>The theorem at a stream that stops after one line of output.\<close>

theorem execute_without_sentinel_witness:
  "outcome_of (execute ''ls'' [''Welcome'', ''$ ls'', ''a.txt'']) = Inr ()
   \<and> snd (read_stdout (strip_newlines ''ls'') False 0 [''Welcome'', ''$ ls'', ''a.txt'']) = (Inr 0, [])"
  by (rule execute_without_sentinel) code_simp

subsection \<open>Facts about the stages of \<open>solve_on_remote\<close>\<close>

lemma write_python_file_ok:
  assumes "fst (write_python_file_on_remote h env kw) = Inr u"
  shows "\<exists>script.
           python_script h
             [(''model_unsolved_file'', model_unsolved_file h),
              (''solve_kwargs'', ''**'' @ kw),
              (''model_solved_file'', model_solved_file h)] = Inr script
         \<and> write_python_file_on_remote h env kw =
             (Inr (), [Sftp_open (python_file h), Sftp_file_write (python_file h) script])"
  using assms
  by (auto simp: write_python_file_on_remote_def Let_def split: option.splits sum.splits)

lemma write_model_ok:
  assumes "fst (write_model_on_remote h env) = Inr u"
  shows "write_model_on_remote h env =
           (Inr (), [To_netcdf (unsolved_tmp env),
                     Sftp_put (unsolved_tmp env) (model_unsolved_file h)])"
  using assms by (auto simp: write_model_on_remote_def split: option.splits)

lemma execute_calls:
  "\<exists>out. calls_of (execute c stdout) =
      [Stdin_write (strip_newlines c @ [newline]),
       Stdin_write (''echo End of stdout buffer. Finished with exit status $?'' @ [newline]),
       Stdin_flush] @ map Print out"
  by (auto simp add: execute_unfold calls_of_def split_beta finish_def)

lemma filter_map_Print:
  "filter is_put_call (map Print out) = []"
  "filter is_get_call (map Print out) = []"
  "filter (\<lambda>x. x = Stdin_flush) (map Print out) = []"
  "\<not> list_ex is_fetch_call (map Print out)"
  by (induction out) auto

lemma solve_on_remote_stages:
  "solve_on_remote h env kw stdout =
     (case write_python_file_on_remote h env kw of
        (Inl e, staged) \<Rightarrow> (Inl e, staged, stdout)
      | (Inr _, staged) \<Rightarrow>
     (case write_model_on_remote h env of
        (Inl e, uploaded) \<Rightarrow> (Inl e, staged @ uploaded, stdout)
      | (Inr _, uploaded) \<Rightarrow>
     (case build_command h of
        Inl e \<Rightarrow> (Inl e, staged @ uploaded, stdout)
      | Inr c \<Rightarrow>
     (case outcome_of (execute c stdout) of
        Inl e \<Rightarrow> (Inl e, staged @ uploaded @ calls_of (execute c stdout),
                  stream_after (execute c stdout))
      | Inr _ \<Rightarrow>
     (case get_fails env of
        Some e \<Rightarrow>
          (Inl e, staged @ uploaded @ calls_of (execute c stdout)
                  @ [Sftp_get (model_solved_file h) (solved_tmp env)],
           stream_after (execute c stdout))
      | None \<Rightarrow>
          (read_netcdf env, staged @ uploaded @ calls_of (execute c stdout)
                  @ [Sftp_get (model_solved_file h) (solved_tmp env),
                     Read_netcdf (solved_tmp env)],
           stream_after (execute c stdout)))))))"
  by (simp add: solve_on_remote_def outcome_of_def calls_of_def stream_after_def
      split: prod.splits sum.splits option.splits)

subsection \<open>The calls of a successful run\<close>

lemma successful_run_shape:
  assumes ok: "outcome_of (solve_on_remote h env solve_kwargs stdout) = Inr solved"
  shows "\<exists>script command_line out.
           python_script h
             [(''model_unsolved_file'', model_unsolved_file h),
              (''solve_kwargs'', ''**'' @ solve_kwargs),
              (''model_solved_file'', model_solved_file h)] = Inr script
         \<and> build_command h = Inr command_line
         \<and> calls_of (solve_on_remote h env solve_kwargs stdout) =
             [Sftp_open (python_file h),
              Sftp_file_write (python_file h) script,
              To_netcdf (unsolved_tmp env),
              Sftp_put (unsolved_tmp env) (model_unsolved_file h),
              Stdin_write (strip_newlines command_line @ [newline]),
              Stdin_write (''echo End of stdout buffer. Finished with exit status $?'' @ [newline]),
              Stdin_flush]
             @ map Print out
             @ [Sftp_get (model_solved_file h) (solved_tmp env),
                Read_netcdf (solved_tmp env)]
         \<and> read_netcdf env = Inr solved"
proof -
  let ?run = "solve_on_remote h env solve_kwargs stdout"
  obtain r1 staged where w1: "write_python_file_on_remote h env solve_kwargs = (r1, staged)"
    by (cases "write_python_file_on_remote h env solve_kwargs") auto
  obtain r2 uploaded where w2: "write_model_on_remote h env = (r2, uploaded)"
    by (cases "write_model_on_remote h env") auto
  from ok w1 obtain u1 where r1: "r1 = Inr u1"
    by (cases r1) (auto simp: solve_on_remote_stages outcome_of_def)
  from ok w1 w2 r1 obtain u2 where r2: "r2 = Inr u2"
    by (cases r2) (auto simp: solve_on_remote_stages outcome_of_def)
  from ok w1 w2 r1 r2 obtain c where c: "build_command h = Inr c"
    by (cases "build_command h") (auto simp: solve_on_remote_stages outcome_of_def)
  from ok w1 w2 r1 r2 c obtain u3 where e: "outcome_of (execute c stdout) = Inr u3"
    by (cases "outcome_of (execute c stdout)")
       (auto simp: solve_on_remote_stages outcome_of_def)
  from ok w1 w2 r1 r2 c e have g: "get_fails env = None"
    by (cases "get_fails env") (auto simp: solve_on_remote_stages outcome_of_def)
  from ok w1 w2 r1 r2 c e g have rd: "read_netcdf env = Inr solved"
    by (simp add: solve_on_remote_stages outcome_of_def)
  from w1 r1 obtain script where
    s: "python_script h
             [(''model_unsolved_file'', model_unsolved_file h),
              (''solve_kwargs'', ''**'' @ solve_kwargs),
              (''model_solved_file'', model_solved_file h)] = Inr script"
    and st: "staged = [Sftp_open (python_file h), Sftp_file_write (python_file h) script]"
    using write_python_file_ok [of h env solve_kwargs u1] by auto
  from w2 r2 have up: "uploaded = [To_netcdf (unsolved_tmp env),
                                   Sftp_put (unsolved_tmp env) (model_unsolved_file h)]"
    using write_model_ok [of h env u2] by auto
  obtain out where ex: "calls_of (execute c stdout) =
      [Stdin_write (strip_newlines c @ [newline]),
       Stdin_write (''echo End of stdout buffer. Finished with exit status $?'' @ [newline]),
       Stdin_flush] @ map Print out"
    using execute_calls [of c stdout] by auto
  have "calls_of ?run = staged @ uploaded @ calls_of (execute c stdout)
          @ [Sftp_get (model_solved_file h) (solved_tmp env), Read_netcdf (solved_tmp env)]"
    using w1 w2 r1 r2 c e g by (simp add: solve_on_remote_stages calls_of_def)
  with st up ex have "calls_of ?run =
             [Sftp_open (python_file h),
              Sftp_file_write (python_file h) script,
              To_netcdf (unsolved_tmp env),
              Sftp_put (unsolved_tmp env) (model_unsolved_file h),
              Stdin_write (strip_newlines c @ [newline]),
              Stdin_write (''echo End of stdout buffer. Finished with exit status $?'' @ [newline]),
              Stdin_flush]
             @ map Print out
             @ [Sftp_get (model_solved_file h) (solved_tmp env),
                Read_netcdf (solved_tmp env)]"
    by simp
  with s c rd show ?thesis by blast
qed


text \<open>
  Claim C7. When \<open>solve_on_remote\<close> returns a model, the calls it made are, in this
  order: the remote script file is opened and the rendered script written to it; the
  model is saved to a temporary file and that file is put, once, at the unsolved path;
  \<open>execute\<close> runs once, writing the command text and the \<open>echo\<close> line, flushing once
  and printing the forwarded lines; the solved path is fetched, once, into a temporary
  file; that file is read. The model returned is the one read. So \<open>put\<close>, the flush
  of \<open>execute\<close> and \<open>get\<close> each occur exactly once among the calls.
\<close>

theorem successful_run_calls:
  assumes ok: "outcome_of (solve_on_remote h env solve_kwargs stdout) = Inr solved"
  shows "(\<exists>script command_line out.
           python_script h
             [(''model_unsolved_file'', model_unsolved_file h),
              (''solve_kwargs'', ''**'' @ solve_kwargs),
              (''model_solved_file'', model_solved_file h)] = Inr script
         \<and> build_command h = Inr command_line
         \<and> calls_of (solve_on_remote h env solve_kwargs stdout) =
             [Sftp_open (python_file h),
              Sftp_file_write (python_file h) script,
              To_netcdf (unsolved_tmp env),
              Sftp_put (unsolved_tmp env) (model_unsolved_file h),
              Stdin_write (strip_newlines command_line @ [newline]),
              Stdin_write (''echo End of stdout buffer. Finished with exit status $?'' @ [newline]),
              Stdin_flush]
             @ map Print out
             @ [Sftp_get (model_solved_file h) (solved_tmp env),
                Read_netcdf (solved_tmp env)]
         \<and> read_netcdf env = Inr solved)
       \<and> length (filter is_put_call (calls_of (solve_on_remote h env solve_kwargs stdout))) = 1
       \<and> length (filter (\<lambda>x. x = Stdin_flush)
                   (calls_of (solve_on_remote h env solve_kwargs stdout))) = 1
       \<and> length (filter is_get_call (calls_of (solve_on_remote h env solve_kwargs stdout))) = 1"
proof -
  from successful_run_shape [OF ok] obtain script command_line out where
    s: "python_script h
             [(''model_unsolved_file'', model_unsolved_file h),
              (''solve_kwargs'', ''**'' @ solve_kwargs),
              (''model_solved_file'', model_solved_file h)] = Inr script"
    and b: "build_command h = Inr command_line"
    and c: "calls_of (solve_on_remote h env solve_kwargs stdout) =
             [Sftp_open (python_file h),
              Sftp_file_write (python_file h) script,
              To_netcdf (unsolved_tmp env),
              Sftp_put (unsolved_tmp env) (model_unsolved_file h),
              Stdin_write (strip_newlines command_line @ [newline]),
              Stdin_write (''echo End of stdout buffer. Finished with exit status $?'' @ [newline]),
              Stdin_flush]
             @ map Print out
             @ [Sftp_get (model_solved_file h) (solved_tmp env),
                Read_netcdf (solved_tmp env)]"
    and r: "read_netcdf env = Inr solved"
    by blast
  have "length (filter is_put_call (calls_of (solve_on_remote h env solve_kwargs stdout))) = 1"
    unfolding c by (simp add: filter_map_Print)
  moreover have "length (filter (\<lambda>x. x = Stdin_flush)
                   (calls_of (solve_on_remote h env solve_kwargs stdout))) = 1"
    unfolding c by (simp add: filter_map_Print)
  moreover have "length (filter is_get_call (calls_of (solve_on_remote h env solve_kwargs stdout))) = 1"
    unfolding c by (simp add: filter_map_Print)
  ultimately show ?thesis using s b c r by blast
qed

text \<open>
  The theorem for a handler with a pre-execution hook, on a remote where every call
  succeeds and the shell reports exit status 0.
\<close>

theorem successful_run_calls_witness:
  "(\<exists>script command_line out.
           python_script (hooked_handler (PyStr ''conda activate linopy'') PyNone)
             [(''model_unsolved_file'',
               model_unsolved_file (hooked_handler (PyStr ''conda activate linopy'') PyNone)),
              (''solve_kwargs'', ''**'' @ ''{}''),
              (''model_solved_file'',
               model_solved_file (hooked_handler (PyStr ''conda activate linopy'') PyNone))]
             = Inr script
         \<and> build_command (hooked_handler (PyStr ''conda activate linopy'') PyNone)
             = Inr command_line
         \<and> calls_of (solve_on_remote (hooked_handler (PyStr ''conda activate linopy'') PyNone)
                       (reliable_remote (42::nat)) ''{}''
                       [''$ python /tmp/linopy-execution.py'', ''Optimal'',
                        ''End of stdout buffer. Finished with exit status 0'']) =
             [Sftp_open (python_file (hooked_handler (PyStr ''conda activate linopy'') PyNone)),
              Sftp_file_write
                (python_file (hooked_handler (PyStr ''conda activate linopy'') PyNone)) script,
              To_netcdf (unsolved_tmp (reliable_remote (42::nat))),
              Sftp_put (unsolved_tmp (reliable_remote (42::nat)))
                (model_unsolved_file (hooked_handler (PyStr ''conda activate linopy'') PyNone)),
              Stdin_write (strip_newlines command_line @ [newline]),
              Stdin_write (''echo End of stdout buffer. Finished with exit status $?'' @ [newline]),
              Stdin_flush]
             @ map Print out
             @ [Sftp_get
                  (model_solved_file (hooked_handler (PyStr ''conda activate linopy'') PyNone))
                  (solved_tmp (reliable_remote (42::nat))),
                Read_netcdf (solved_tmp (reliable_remote (42::nat)))]
         \<and> read_netcdf (reliable_remote (42::nat)) = Inr 42)
   \<and> length (filter is_put_call (calls_of (solve_on_remote (hooked_handler (PyStr ''conda activate linopy'') PyNone)
                       (reliable_remote (42::nat)) ''{}''
                       [''$ python /tmp/linopy-execution.py'', ''Optimal'',
                        ''End of stdout buffer. Finished with exit status 0'']))) = 1
   \<and> length (filter (\<lambda>x. x = Stdin_flush) (calls_of (solve_on_remote (hooked_handler (PyStr ''conda activate linopy'') PyNone)
                       (reliable_remote (42::nat)) ''{}''
                       [''$ python /tmp/linopy-execution.py'', ''Optimal'',
                        ''End of stdout buffer. Finished with exit status 0'']))) = 1
   \<and> length (filter is_get_call (calls_of (solve_on_remote (hooked_handler (PyStr ''conda activate linopy'') PyNone)
                       (reliable_remote (42::nat)) ''{}''
                       [''$ python /tmp/linopy-execution.py'', ''Optimal'',
                        ''End of stdout buffer. Finished with exit status 0'']))) = 1"
  by (rule successful_run_calls) code_simp

subsection \<open>The command text and the hooks\<close>

text \<open>
  When both hook attributes exist on the instance, the command text is the interpreter
  line, preceded by the pre-execution hook and a newline if that hook is a non-empty
  string, and followed by a newline and the post-execution hook if that hook is a
  non-empty string.
\<close>

lemma build_command_attributes_set:
  assumes "pre_execution h = Some pre" "post_execution h = Some post"
  shows "build_command h =
           Inr ((case pre of PyStr p \<Rightarrow> if p \<noteq> [] then p @ [newline] else [] | PyNone \<Rightarrow> [])
                @ python_executable h @ '' '' @ python_file h
                @ (case post of PyStr q \<Rightarrow> if q \<noteq> [] then newline # q else [] | PyNone \<Rightarrow> []))"
  using assms by (simp add: build_command_def getattr_def Let_def split: pyval.splits)

text \<open>
  Claim C2 fails on the code for a handler on which no hook has been configured. The
  dataclass declares no field \<open>pre_execution\<close> or \<open>post_execution\<close>, so reading
  \<open>self.pre_execution\<close> on a handler built by the constructor raises
  \<open>AttributeError\<close>: no command text is built, and \<open>solve_on_remote\<close> raises after the
  script and the model have been uploaded, without calling \<open>execute\<close>.
\<close>

theorem default_handler_lacks_hook_attributes:
  "build_command default_handler = Inl (AttributeError ''pre_execution'')
   \<and> outcome_of (solve_on_remote default_handler (reliable_remote solved) solve_kwargs stdout)
       = Inl (AttributeError ''pre_execution'')
   \<and> \<not> list_ex is_shell_call
         (calls_of (solve_on_remote default_handler (reliable_remote solved) solve_kwargs stdout))"
proof -
  have b: "build_command default_handler = Inl (AttributeError ''pre_execution'')"
    by (simp add: build_command_def default_handler_def getattr_def)
  obtain script where
    "format command
          [(''model_unsolved_file'', ''/tmp/linopy-unsolved-model.nc''),
           (''solve_kwargs'', ''**'' @ solve_kwargs),
           (''model_solved_file'', ''/tmp/linopy-solved-model.nc'')] = Inr script"
    by (simp add: format_command)
  then have w: "write_python_file_on_remote default_handler (reliable_remote solved) solve_kwargs
           = (Inr (), [Sftp_open ''/tmp/linopy-execution.py'',
                       Sftp_file_write ''/tmp/linopy-execution.py'' script])"
    by (simp add: write_python_file_on_remote_def default_handler_def reliable_remote_def)
  have m: "write_model_on_remote default_handler (reliable_remote solved)
           = (Inr (), [To_netcdf ''/tmp/linopy-a.nc'',
                       Sftp_put ''/tmp/linopy-a.nc'' ''/tmp/linopy-unsolved-model.nc''])"
    by (simp add: write_model_on_remote_def default_handler_def reliable_remote_def)
  from b w m show ?thesis
    by (simp add: solve_on_remote_stages outcome_of_def calls_of_def)
qed


subsection \<open>Failures abort the workflow\<close>

lemma write_python_file_calls:
  "list_all (\<lambda>x. \<not> is_shell_call x \<and> \<not> is_fetch_call x \<and> \<not> is_put_call x)
     (snd (write_python_file_on_remote h env kw))"
  by (simp add: write_python_file_on_remote_def Let_def split: option.splits sum.splits)

lemma write_model_calls:
  "list_all (\<lambda>x. \<not> is_shell_call x \<and> \<not> is_fetch_call x)
     (snd (write_model_on_remote h env))"
  by (simp add: write_model_on_remote_def split: option.splits)

lemma write_model_put_fails:
  assumes "put_fails env = Some e"
  shows "write_model_on_remote h env =
           (case to_netcdf_fails env of
              Some e' \<Rightarrow> (Inl e', [To_netcdf (unsolved_tmp env)])
            | None \<Rightarrow>
                (Inl e, [To_netcdf (unsolved_tmp env),
                         Sftp_put (unsolved_tmp env) (model_unsolved_file h)]))"
  using assms by (simp add: write_model_on_remote_def split: option.splits)

lemma execute_no_fetch: "\<not> list_ex is_fetch_call (calls_of (execute c stdout))"
proof -
  obtain out where "calls_of (execute c stdout) =
      [Stdin_write (strip_newlines c @ [newline]),
       Stdin_write (''echo End of stdout buffer. Finished with exit status $?'' @ [newline]),
       Stdin_flush] @ map Print out"
    using execute_calls [of c stdout] by auto
  then show ?thesis by (simp add: filter_map_Print)
qed

text \<open>
  Claim C8. If \<open>put\<close> is set to fail, \<open>solve_on_remote\<close> raises, makes no call of
  \<open>execute\<close> (nothing is written to the shell or printed, the stream is untouched),
  fetches nothing, calls \<open>put\<close> at most once, and raises the exception of \<open>put\<close>
  whenever \<open>put\<close> was called. If the script and the model were uploaded, the command
  text was built and \<open>execute\<close> raises, then \<open>solve_on_remote\<close> raises the same
  exception, its calls are those of the two uploads and of the one \<open>execute\<close>, and
  nothing is fetched or read.
\<close>

theorem workflow_aborts_on_first_failure:
  "(put_fails env = Some e \<longrightarrow>
      (\<exists>err. outcome_of (solve_on_remote h env solve_kwargs stdout) = Inl err)
    \<and> \<not> list_ex is_shell_call (calls_of (solve_on_remote h env solve_kwargs stdout))
    \<and> \<not> list_ex is_fetch_call (calls_of (solve_on_remote h env solve_kwargs stdout))
    \<and> length (filter is_put_call (calls_of (solve_on_remote h env solve_kwargs stdout))) \<le> 1
    \<and> (list_ex is_put_call (calls_of (solve_on_remote h env solve_kwargs stdout)) \<longrightarrow>
          outcome_of (solve_on_remote h env solve_kwargs stdout) = Inl e)
    \<and> stream_after (solve_on_remote h env solve_kwargs stdout) = stdout)
   \<and> (fst (write_python_file_on_remote h env solve_kwargs) = Inr ()
      \<and> fst (write_model_on_remote h env) = Inr ()
      \<and> build_command h = Inr command_line
      \<and> outcome_of (execute command_line stdout) = Inl raised \<longrightarrow>
        outcome_of (solve_on_remote h env solve_kwargs stdout) = Inl raised
      \<and> \<not> list_ex is_fetch_call (calls_of (solve_on_remote h env solve_kwargs stdout))
      \<and> calls_of (solve_on_remote h env solve_kwargs stdout) =
          snd (write_python_file_on_remote h env solve_kwargs)
          @ snd (write_model_on_remote h env)
          @ calls_of (execute command_line stdout))"
proof (intro conjI impI)
  let ?run = "solve_on_remote h env solve_kwargs stdout"
  obtain r1 staged where w1: "write_python_file_on_remote h env solve_kwargs = (r1, staged)"
    by (cases "write_python_file_on_remote h env solve_kwargs") auto
  have st: "list_all (\<lambda>x. \<not> is_shell_call x \<and> \<not> is_fetch_call x \<and> \<not> is_put_call x) staged"
    using write_python_file_calls [of h env solve_kwargs] w1 by simp
  then have st1: "\<not> list_ex is_shell_call staged" "\<not> list_ex is_fetch_call staged"
    "filter is_put_call staged = []" "\<not> list_ex is_put_call staged"
    by (auto simp: list_all_iff list_ex_iff filter_empty_conv)
  {
    assume p: "put_fails env = Some e"
    note m = write_model_put_fails [OF p, of h]
    show "\<exists>err. outcome_of ?run = Inl err"
      using w1 m
      by (cases r1; cases "to_netcdf_fails env")
         (simp_all add: solve_on_remote_stages outcome_of_def)
    show "\<not> list_ex is_shell_call (calls_of ?run)"
      using w1 m st1
      by (cases r1; cases "to_netcdf_fails env")
         (simp_all add: solve_on_remote_stages calls_of_def)
    show "\<not> list_ex is_fetch_call (calls_of ?run)"
      using w1 m st1
      by (cases r1; cases "to_netcdf_fails env")
         (simp_all add: solve_on_remote_stages calls_of_def)
    show "length (filter is_put_call (calls_of ?run)) \<le> 1"
      using w1 m st1
      by (cases r1; cases "to_netcdf_fails env")
         (simp_all add: solve_on_remote_stages calls_of_def)
    show "stream_after ?run = stdout"
      using w1 m
      by (cases r1; cases "to_netcdf_fails env")
         (simp_all add: solve_on_remote_stages stream_after_def)
    {
      assume "list_ex is_put_call (calls_of ?run)"
      then show "outcome_of ?run = Inl e"
        using w1 m st1
        by (cases r1; cases "to_netcdf_fails env")
           (simp_all add: solve_on_remote_stages calls_of_def outcome_of_def)
    }
  }
  {
    assume h: "fst (write_python_file_on_remote h env solve_kwargs) = Inr ()
      \<and> fst (write_model_on_remote h env) = Inr ()
      \<and> build_command h = Inr command_line
      \<and> outcome_of (execute command_line stdout) = Inl raised"
    obtain r2 uploaded where w2: "write_model_on_remote h env = (r2, uploaded)"
      by (cases "write_model_on_remote h env") auto
    have up: "\<not> list_ex is_fetch_call uploaded"
      using write_model_calls [of h env] w2 by (auto simp: list_all_iff list_ex_iff)
    from h w1 w2 have r: "r1 = Inr ()" "r2 = Inr ()" by simp_all
    show "outcome_of ?run = Inl raised"
      using h w1 w2 r by (simp add: solve_on_remote_stages outcome_of_def)
    show c: "calls_of ?run =
          snd (write_python_file_on_remote h env solve_kwargs)
          @ snd (write_model_on_remote h env)
          @ calls_of (execute command_line stdout)"
      using h w1 w2 r by (simp add: solve_on_remote_stages calls_of_def outcome_of_def)
    show "\<not> list_ex is_fetch_call (calls_of ?run)"
      unfolding c using w1 w2 st1 up execute_no_fetch [of command_line stdout] by simp
  }
qed

text \<open>
  The theorem on two runs: one where \<open>put\<close> is refused, one where the shell reports
  exit status 1 and \<open>execute\<close> raises \<open>OSError\<close>.
\<close>

theorem workflow_aborts_on_first_failure_witness:
  "outcome_of (solve_on_remote (hooked_handler PyNone PyNone)
       ((reliable_remote (42::nat))\<lparr>put_fails := Some (External ''Permission denied'')\<rparr>) ''{}''
       [''$ python /tmp/linopy-execution.py'',
        ''End of stdout buffer. Finished with exit status 0''])
     = Inl (External ''Permission denied'')
   \<and> \<not> list_ex is_shell_call
        (calls_of (solve_on_remote (hooked_handler PyNone PyNone)
          ((reliable_remote (42::nat))\<lparr>put_fails := Some (External ''Permission denied'')\<rparr>) ''{}''
          [''$ python /tmp/linopy-execution.py'',
           ''End of stdout buffer. Finished with exit status 0'']))
   \<and> outcome_of (solve_on_remote (hooked_handler PyNone PyNone) (reliable_remote (42::nat)) ''{}''
       [''$ python /tmp/linopy-execution.py'', ''Traceback (most recent call last):'',
        ''End of stdout buffer. Finished with exit status 1''])
     = Inl (OSError ''Execution on remote raised an error, see above.'')
   \<and> \<not> list_ex is_fetch_call
        (calls_of (solve_on_remote (hooked_handler PyNone PyNone) (reliable_remote (42::nat)) ''{}''
          [''$ python /tmp/linopy-execution.py'', ''Traceback (most recent call last):'',
           ''End of stdout buffer. Finished with exit status 1'']))"
proof -
  let ?h = "hooked_handler PyNone PyNone"
  let ?bad = "(reliable_remote (42::nat))\<lparr>put_fails := Some (External ''Permission denied'')\<rparr>"
  let ?s0 = "[''$ python /tmp/linopy-execution.py'',
              ''End of stdout buffer. Finished with exit status 0'']"
  let ?s1 = "[''$ python /tmp/linopy-execution.py'', ''Traceback (most recent call last):'',
              ''End of stdout buffer. Finished with exit status 1'']"
  have a: "put_fails ?bad = Some (External ''Permission denied'')" by simp
  have p: "list_ex is_put_call (calls_of (solve_on_remote ?h ?bad ''{}'' ?s0))" by code_simp
  have b1: "fst (write_python_file_on_remote ?h (reliable_remote (42::nat)) ''{}'') = Inr ()"
    by code_simp
  have b2: "fst (write_model_on_remote ?h (reliable_remote (42::nat))) = Inr ()" by code_simp
  have b3: "build_command ?h = Inr ''python /tmp/linopy-execution.py''" by code_simp
  have b4: "outcome_of (execute ''python /tmp/linopy-execution.py'' ?s1)
            = Inl (OSError ''Execution on remote raised an error, see above.'')"
    by code_simp
  from workflow_aborts_on_first_failure
         [of ?bad "External ''Permission denied''" ?h "''{}''" ?s0] a p
  have "outcome_of (solve_on_remote ?h ?bad ''{}'' ?s0) = Inl (External ''Permission denied'')
        \<and> \<not> list_ex is_shell_call (calls_of (solve_on_remote ?h ?bad ''{}'' ?s0))"
    by blast
  moreover
  from workflow_aborts_on_first_failure
         [of "reliable_remote (42::nat)" _ ?h "''{}''" ?s1 "''python /tmp/linopy-execution.py''"
             "OSError ''Execution on remote raised an error, see above.''"]
       b1 b2 b3 b4
  have "outcome_of (solve_on_remote ?h (reliable_remote (42::nat)) ''{}'' ?s1)
          = Inl (OSError ''Execution on remote raised an error, see above.'')
        \<and> \<not> list_ex is_fetch_call
             (calls_of (solve_on_remote ?h (reliable_remote (42::nat)) ''{}'' ?s1))"
    by blast
  ultimately show ?thesis by blast
qed

end
